theory Spec2Isabelle
  imports Complex_Main "HOL-Library.Word"
begin

section \<open>JavaScript numbers\<close>

text \<open>
  A JavaScript number is modelled as NaN, one of the two infinities, or a real. Finite
  values are exact reals: the rounding of IEEE doubles, overflow to infinity and the sign of
  zero are not represented (the single zero behaves as +0). Comparisons with NaN are false
  and arithmetic on NaN yields NaN, as in the language.
\<close>

datatype number = NaN | NegInf | Num real | PosInf

fun num_lt :: "number \<Rightarrow> number \<Rightarrow> bool" where
  "num_lt NaN y = False"
| "num_lt x NaN = False"
| "num_lt (Num a) (Num b) = (a < b)"
| "num_lt NegInf NegInf = False"
| "num_lt NegInf y = True"
| "num_lt x NegInf = False"
| "num_lt PosInf y = False"
| "num_lt x PosInf = True"

definition num_gt :: "number \<Rightarrow> number \<Rightarrow> bool" where
  "num_gt x y = num_lt y x"

definition num_le :: "number \<Rightarrow> number \<Rightarrow> bool" where
  "num_le x y = (x \<noteq> NaN \<and> y \<noteq> NaN \<and> \<not> num_lt y x)"

definition num_ge :: "number \<Rightarrow> number \<Rightarrow> bool" where
  "num_ge x y = num_le y x"

fun num_neg :: "number \<Rightarrow> number" where
  "num_neg NaN = NaN"
| "num_neg NegInf = PosInf"
| "num_neg PosInf = NegInf"
| "num_neg (Num a) = Num (- a)"

fun num_add :: "number \<Rightarrow> number \<Rightarrow> number" where
  "num_add NaN y = NaN"
| "num_add x NaN = NaN"
| "num_add (Num a) (Num b) = Num (a + b)"
| "num_add PosInf NegInf = NaN"
| "num_add NegInf PosInf = NaN"
| "num_add PosInf y = PosInf"
| "num_add NegInf y = NegInf"
| "num_add x PosInf = PosInf"
| "num_add x NegInf = NegInf"

definition num_sub :: "number \<Rightarrow> number \<Rightarrow> number" where
  "num_sub x y = num_add x (num_neg y)"

text \<open>The sign of an infinite product or quotient: \<open>inf_of True\<close> is +Infinity.\<close>

definition inf_of :: "bool \<Rightarrow> number" where
  "inf_of pos = (if pos then PosInf else NegInf)"

fun num_mul :: "number \<Rightarrow> number \<Rightarrow> number" where
  "num_mul NaN y = NaN"
| "num_mul x NaN = NaN"
| "num_mul (Num a) (Num b) = Num (a * b)"
| "num_mul (Num a) PosInf = (if a = 0 then NaN else inf_of (0 < a))"
| "num_mul (Num a) NegInf = (if a = 0 then NaN else inf_of (a < 0))"
| "num_mul PosInf (Num b) = (if b = 0 then NaN else inf_of (0 < b))"
| "num_mul NegInf (Num b) = (if b = 0 then NaN else inf_of (b < 0))"
| "num_mul PosInf PosInf = PosInf"
| "num_mul NegInf NegInf = PosInf"
| "num_mul PosInf NegInf = NegInf"
| "num_mul NegInf PosInf = NegInf"

fun num_div :: "number \<Rightarrow> number \<Rightarrow> number" where
  "num_div NaN y = NaN"
| "num_div x NaN = NaN"
| "num_div (Num a) (Num b) =
     (if b = 0 then (if a = 0 then NaN else inf_of (0 < a)) else Num (a / b))"
| "num_div (Num a) PosInf = Num 0"
| "num_div (Num a) NegInf = Num 0"
| "num_div PosInf (Num b) = inf_of (0 \<le> b)"
| "num_div NegInf (Num b) = inf_of (b < 0)"
| "num_div PosInf y = NaN"
| "num_div NegInf y = NaN"

text \<open>
  \<open>Math.pow\<close>, following the case list of the language's exponentiation: NaN exponent,
  zero exponent, NaN base, infinite base, zero base, infinite exponent, negative base with a
  fractional exponent, and otherwise the real power.
\<close>

definition odd_integer :: "real \<Rightarrow> bool" where
  "odd_integer e = (e = of_int \<lfloor>e\<rfloor> \<and> odd \<lfloor>e\<rfloor>)"

fun Math_pow :: "number \<Rightarrow> number \<Rightarrow> number" where
  "Math_pow x NaN = NaN"
| "Math_pow NaN (Num e) = (if e = 0 then Num 1 else NaN)"
| "Math_pow NaN y = NaN"
| "Math_pow PosInf (Num e) = (if e = 0 then Num 1 else if 0 < e then PosInf else Num 0)"
| "Math_pow PosInf PosInf = PosInf"
| "Math_pow PosInf NegInf = Num 0"
| "Math_pow NegInf (Num e) =
     (if e = 0 then Num 1
      else if 0 < e then (if odd_integer e then NegInf else PosInf)
      else Num 0)"
| "Math_pow NegInf PosInf = PosInf"
| "Math_pow NegInf NegInf = Num 0"
| "Math_pow (Num b) PosInf =
     (if 1 < \<bar>b\<bar> then PosInf else if \<bar>b\<bar> = 1 then NaN else Num 0)"
| "Math_pow (Num b) NegInf =
     (if 1 < \<bar>b\<bar> then Num 0 else if \<bar>b\<bar> = 1 then NaN else PosInf)"
| "Math_pow (Num b) (Num e) =
     (if e = 0 then Num 1
      else if b = 0 then (if 0 < e then Num 0 else PosInf)
      else if 0 < b then Num (b powr e)
      else if e = of_int \<lfloor>e\<rfloor> then Num (b powi \<lfloor>e\<rfloor>)
      else NaN)"

text \<open>\<open>Math.round\<close>: the nearest integer, a tie going towards +Infinity.\<close>

fun Math_round :: "number \<Rightarrow> number" where
  "Math_round (Num x) = Num (of_int \<lfloor>x + 1 / 2\<rfloor>)"
| "Math_round x = x"


section \<open>Matrices and the calibration table\<close>

text \<open>
  A matrix is a 3-by-3 array of numbers; \<open>entries\<close> gives it back as the array of rows
  that the source indexes as \<open>m[r][c]\<close>. The parsed JSON table maps a mode name to an object
  that maps a severity key to a matrix; both objects are association lists of their own
  properties in enumeration order (a JavaScript object has no duplicate keys). JSON of
  another shape is outside the model, so a table, a mode's object and a matrix are always
  truthy, and a property is looked up among the own properties only. A mode may have no key
  at all, and a key may be any string.

  Left out of the model, since no result depends on them: the calls of \<open>console.warn\<close>, the
  default values of the parameters \<open>url\<close> and \<open>severity\<close>, and the canvas contexts.
\<close>

datatype vec3 = Vec3 number number number
datatype matrix = Matrix vec3 vec3 vec3
type_synonym samples = "(string \<times> matrix) list"
type_synonym table = "(string \<times> samples) list"

fun cells :: "vec3 \<Rightarrow> number list" where
  "cells (Vec3 x y z) = [x, y, z]"

fun entries :: "matrix \<Rightarrow> number list list" where
  "entries (Matrix r0 r1 r2) = [cells r0, cells r1, cells r2]"

text \<open>
  The two library functions the lookup calls, \<open>parseFloat\<close> and \<open>Number.prototype.toFixed\<close>,
  are parameters of the model: every theorem holds for whatever they compute.
\<close>

record builtins =
  parseFloat :: "string \<Rightarrow> number"
  toFixed :: "number \<Rightarrow> nat \<Rightarrow> string"

datatype error =
    TypeError
  | FetchRejected
  | LoadFailed string nat string
  | JsonRejected

subsection \<open>Scalar helpers\<close>

definition clamp01 :: "number \<Rightarrow> number" where
  "clamp01 v = (if num_lt v (Num 0) then Num 0 else if num_gt v (Num 1) then Num 1 else v)"

definition srgbToLinear :: "number \<Rightarrow> number" where
  "srgbToLinear c =
     (if num_le c (Num 0.04045) then num_div c (Num 12.92)
      else Math_pow (num_div (num_add c (Num 0.055)) (Num 1.055)) (Num 2.4))"

definition linearToSrgb :: "number \<Rightarrow> number" where
  "linearToSrgb c =
     (if num_le c (Num 0.0031308) then num_mul (Num 12.92) c
      else num_sub (num_mul (Num 1.055) (Math_pow c (num_div (Num 1.0) (Num 2.4))))
             (Num 0.055))"

subsection \<open>lerpMatrix\<close>

text \<open>The body of the inner loop, \<open>a[r][c] * (1 - t) + b[r][c] * t\<close>, then the two loops.\<close>

definition lerp_cell :: "number \<Rightarrow> number \<Rightarrow> number \<Rightarrow> number" where
  "lerp_cell x y t = num_add (num_mul x (num_sub (Num 1) t)) (num_mul y t)"

fun lerp_row :: "vec3 \<Rightarrow> vec3 \<Rightarrow> number \<Rightarrow> vec3" where
  "lerp_row (Vec3 x0 x1 x2) (Vec3 y0 y1 y2) t =
     Vec3 (lerp_cell x0 y0 t) (lerp_cell x1 y1 t) (lerp_cell x2 y2 t)"

fun lerpMatrix :: "matrix \<Rightarrow> matrix \<Rightarrow> number \<Rightarrow> matrix" where
  "lerpMatrix (Matrix a0 a1 a2) (Matrix b0 b1 b2) t =
     Matrix (lerp_row a0 b0 t) (lerp_row a1 b1 t) (lerp_row a2 b2 t)"

subsection \<open>getMachadoMatrixSync\<close>

text \<open>
  \<open>.sort((a, b) => a - b)\<close>: a stable insertion sort that moves \<open>x\<close> behind \<open>y\<close> exactly
  when the comparator's result \<open>x - y\<close> is positive.
\<close>

fun insort_diff :: "number \<Rightarrow> number list \<Rightarrow> number list" where
  "insort_diff x [] = [x]"
| "insort_diff x (y # ys) =
     (if num_gt (num_sub x y) (Num 0) then y # insort_diff x ys else x # y # ys)"

definition sort_diff :: "number list \<Rightarrow> number list" where
  "sort_diff xs = foldr insort_diff xs []"

definition sampleKeys :: "builtins \<Rightarrow> samples \<Rightarrow> number list" where
  "sampleKeys env tbl = sort_diff (filter (\<lambda>v. v \<noteq> NaN) (map (parseFloat env) (map fst tbl)))"

definition keyFromNum :: "builtins \<Rightarrow> number \<Rightarrow> string" where
  "keyFromNum env x = toFixed env x 1"

text \<open>
  The search loop: the first adjacent pair \<open>(a, b)\<close> with \<open>s >= a && s <= b\<close>, or nothing
  when the loop ends without a \<open>break\<close>.
\<close>

fun find_interval :: "number \<Rightarrow> number list \<Rightarrow> (number \<times> number) option" where
  "find_interval s (a # b # rest) =
     (if num_ge s a \<and> num_le s b then Some (a, b) else find_interval s (b # rest))"
| "find_interval s ks = None"

text \<open>
  \<open>k0\<close> and \<open>k1\<close> start as \<open>sampleKeys[0]\<close> and \<open>sampleKeys[1]\<close>; with a single key \<open>k1\<close> is
  \<open>undefined\<close> and \<open>keyFromNum(k1)\<close> throws.
\<close>

definition initial_interval :: "number list \<Rightarrow> (number \<times> number) option" where
  "initial_interval ks = (case ks of a # b # rest \<Rightarrow> Some (a, b) | _ \<Rightarrow> None)"

record state =
  MACHADO_TABLE :: "table option"
  requests :: "string list"

text \<open>
  The result is \<open>Inl\<close> for a thrown exception, \<open>Inr None\<close> for \<open>null\<close> or \<open>undefined\<close>, and
  \<open>Inr (Some m)\<close> for a matrix.
\<close>

definition getMachadoMatrixSync ::
  "builtins \<Rightarrow> state \<Rightarrow> string \<Rightarrow> number \<Rightarrow> error + matrix option" where
  "getMachadoMatrixSync env st mode severity =
     (case MACHADO_TABLE st of
        None \<Rightarrow> Inr None
      | Some T \<Rightarrow>
          (case map_of T mode of
             None \<Rightarrow> Inr None
           | Some tbl \<Rightarrow>
               (let s = clamp01 severity;
                    ks = sampleKeys env tbl
                in if ks = [] then Inr None
                   else if num_le s (hd ks) then Inr (map_of tbl (keyFromNum env (hd ks)))
                   else if num_ge s (last ks) then Inr (map_of tbl (keyFromNum env (last ks)))
                   else
                     (case (case find_interval s ks of
                              Some p \<Rightarrow> Some p
                            | None \<Rightarrow> initial_interval ks) of
                        None \<Rightarrow> Inl TypeError
                      | Some (k0, k1) \<Rightarrow>
                          (case map_of tbl (keyFromNum env k0) of
                             None \<Rightarrow> Inr None
                           | Some m0 \<Rightarrow>
                               (case map_of tbl (keyFromNum env k1) of
                                  None \<Rightarrow> Inr None
                                | Some m1 \<Rightarrow>
                                    Inr (Some (lerpMatrix m0 m1
                                      (num_div (num_sub s k0) (num_sub k1 k0))))))))))"

subsection \<open>The per-pixel transform\<close>

fun transformRgbWithMatrix_srgbLinear ::
  "number \<Rightarrow> number \<Rightarrow> number \<Rightarrow> matrix \<Rightarrow> number \<times> number \<times> number" where
  "transformRgbWithMatrix_srgbLinear r g b
       (Matrix (Vec3 m00 m01 m02) (Vec3 m10 m11 m12) (Vec3 m20 m21 m22)) =
     (let R = srgbToLinear (num_div r (Num 255));
          G = srgbToLinear (num_div g (Num 255));
          B = srgbToLinear (num_div b (Num 255));
          R2 = num_add (num_add (num_mul m00 R) (num_mul m01 G)) (num_mul m02 B);
          G2 = num_add (num_add (num_mul m10 R) (num_mul m11 G)) (num_mul m12 B);
          B2 = num_add (num_add (num_mul m20 R) (num_mul m21 G)) (num_mul m22 B);
          R3 = linearToSrgb R2;
          G3 = linearToSrgb G2;
          B3 = linearToSrgb B2;
          outR = num_mul (clamp01 R3) (Num 255);
          outG = num_mul (clamp01 G3) (Num 255);
          outB = num_mul (clamp01 B3) (Num 255)
      in (Math_round outR, Math_round outG, Math_round outB))"

text \<open>
  Reading a channel of a \<open>Uint8ClampedArray\<close> gives a number in 0..255; storing a number
  clamps it to that range and rounds it, a tie going to the even neighbour, and stores 0
  for NaN.
\<close>

definition byte_num :: "8 word \<Rightarrow> number" where
  "byte_num w = Num (of_nat (unat w))"

definition round_half_even :: "real \<Rightarrow> int" where
  "round_half_even x =
     (let f = \<lfloor>x\<rfloor>
      in if x - of_int f < 1 / 2 then f
         else if 1 / 2 < x - of_int f then f + 1
         else if even f then f else f + 1)"

fun toUint8Clamp :: "number \<Rightarrow> 8 word" where
  "toUint8Clamp NaN = 0"
| "toUint8Clamp NegInf = 0"
| "toUint8Clamp PosInf = 255"
| "toUint8Clamp (Num x) =
     (if x \<le> 0 then 0 else if 255 \<le> x then 255 else word_of_int (round_half_even x))"

text \<open>
  The loop over the image data, four bytes at a time. The data of an \<open>ImageData\<close> has
  length \<open>4 * w * h\<close>, so the loop never meets an incomplete pixel.
\<close>

fun pixel_loop :: "matrix \<Rightarrow> 8 word list \<Rightarrow> 8 word list" where
  "pixel_loop mat (r # g # b # a # rest) =
     (case transformRgbWithMatrix_srgbLinear (byte_num r) (byte_num g) (byte_num b) mat of
        (nr, ng, nb) \<Rightarrow>
          toUint8Clamp nr # toUint8Clamp ng # toUint8Clamp nb # a # pixel_loop mat rest)"
| "pixel_loop mat srcData = []"

record canvas =
  width :: nat
  height :: nat
  imageData :: "8 word list"

text \<open>
  \<open>applyCvdSimulation\<close> returns the image data it puts on the destination canvas, or
  \<open>None\<close> when it returns before drawing.
\<close>

definition applyCvdSimulation ::
  "builtins \<Rightarrow> state \<Rightarrow> canvas \<Rightarrow> string \<Rightarrow> number \<Rightarrow> error + 8 word list option" where
  "applyCvdSimulation env st srcCanvas mode severity =
     (case getMachadoMatrixSync env st mode severity of
        Inl e \<Rightarrow> Inl e
      | Inr None \<Rightarrow> Inr None
      | Inr (Some mat) \<Rightarrow>
          if width srcCanvas = 0 \<or> height srcCanvas = 0 then Inr None
          else Inr (Some (pixel_loop mat (imageData srcCanvas))))"

subsection \<open>loadMachadoMatrices\<close>

text \<open>
  The network is a parameter: \<open>fetch url\<close> is rejected or resolves to a response, whose
  \<open>json\<close> is \<open>None\<close> when the body is not valid JSON. The state records every URL that
  was requested, so that a call that does not fetch leaves the state unchanged. Calls are
  sequential: a second call starts after the first has settled.
\<close>

record response =
  ok :: bool
  status :: nat
  statusText :: string
  json :: "table option"

datatype fetch_outcome = Rejected | Resolved response

definition loadMachadoMatrices ::
  "(string \<Rightarrow> fetch_outcome) \<Rightarrow> string \<Rightarrow> state \<Rightarrow> (error + table) \<times> state" where
  "loadMachadoMatrices fetch url st =
     (case MACHADO_TABLE st of
        Some T \<Rightarrow> (Inr T, st)
      | None \<Rightarrow>
          (let st1 = st\<lparr>requests := requests st @ [url]\<rparr>
           in case fetch url of
                Rejected \<Rightarrow> (Inl FetchRejected, st1)
              | Resolved res \<Rightarrow>
                  if \<not> ok res then (Inl (LoadFailed url (status res) (statusText res)), st1)
                  else (case json res of
                          None \<Rightarrow> (Inl JsonRejected, st1)
                        | Some T \<Rightarrow> (Inr T, st1\<lparr>MACHADO_TABLE := Some T\<rparr>))))"

text \<open>A sequence of load calls, each with its own network behaviour and URL.\<close>

fun load_calls ::
  "((string \<Rightarrow> fetch_outcome) \<times> string) list \<Rightarrow> state \<Rightarrow> (error + table) list \<times> state" where
  "load_calls [] st = ([], st)"
| "load_calls ((fetch, url) # calls) st =
     (case loadMachadoMatrices fetch url st of
        (res, st') \<Rightarrow> (case load_calls calls st' of (ress, st'') \<Rightarrow> (res # ress, st'')))"


section \<open>Vocabulary of the properties\<close>

text \<open>
  The invariants the specification gives a loaded table (sections 3 and 6): within one mode
  the severity keys are distinct, every key that parses as a number parses to a sample point
  in [0, 1] that \<open>toFixed(1)\<close> formats back to the same key, and every matrix has finite
  entries. A key that does not parse is allowed: the lookup drops it.
\<close>

fun is_finite :: "number \<Rightarrow> bool" where
  "is_finite (Num x) = True"
| "is_finite x = False"

definition finite_mat :: "matrix \<Rightarrow> bool" where
  "finite_mat m = list_all (list_all is_finite) (entries m)"

definition key_ok :: "builtins \<Rightarrow> string \<Rightarrow> bool" where
  "key_ok env k =
     (case parseFloat env k of
        NaN \<Rightarrow> True
      | Num x \<Rightarrow> 0 \<le> x \<and> x \<le> 1 \<and> keyFromNum env (Num x) = k
      | _ \<Rightarrow> False)"

definition samples_ok :: "builtins \<Rightarrow> samples \<Rightarrow> bool" where
  "samples_ok env tbl =
     (distinct (map fst tbl) \<and> list_all (\<lambda>(k, m). key_ok env k \<and> finite_mat m) tbl)"

text \<open>The sample points of a mode: the finite values its keys parse to, in stored order.\<close>

fun real_keys :: "number list \<Rightarrow> real list" where
  "real_keys [] = []"
| "real_keys (Num x # ns) = x # real_keys ns"
| "real_keys (n # ns) = real_keys ns"

definition sample_points :: "builtins \<Rightarrow> samples \<Rightarrow> real list" where
  "sample_points env tbl = real_keys (map (parseFloat env) (map fst tbl))"

subsection \<open>A sample table\<close>

text \<open>
  The two builtins tabulated on the keys of the sample table; elsewhere they answer as for
  a string that is not a number and as for NaN. The matrices are those of the
  specification's scenario, with one interior sample.
\<close>

definition sample_env :: builtins where
  "sample_env =
     \<lparr>parseFloat = (\<lambda>k. if k = ''0.0'' then Num 0
                         else if k = ''0.5'' then Num (1 / 2)
                         else if k = ''1.0'' then Num 1 else NaN),
      toFixed = (\<lambda>x d. if x = Num 0 then ''0.0''
                        else if x = Num (1 / 2) then ''0.5''
                        else if x = Num 1 then ''1.0'' else ''NaN'')\<rparr>"

definition identity_matrix :: matrix where
  "identity_matrix =
     Matrix (Vec3 (Num 1) (Num 0) (Num 0)) (Vec3 (Num 0) (Num 1) (Num 0)) (Vec3 (Num 0) (Num 0) (Num 1))"

definition protan_half :: matrix where
  "protan_half =
     Matrix (Vec3 (Num 0.458064) (Num 0.679578) (Num (- 0.137642)))
            (Vec3 (Num 0.092785) (Num 0.846313) (Num 0.060902))
            (Vec3 (Num (- 0.007494)) (Num (- 0.016807)) (Num 1.024301))"

definition protan_full :: matrix where
  "protan_full =
     Matrix (Vec3 (Num 0.152) (Num 1.053) (Num (- 0.205)))
            (Vec3 (Num 0.115) (Num 0.786) (Num 0.099))
            (Vec3 (Num (- 0.004)) (Num 0.048) (Num 0.956))"

definition sample_protan :: samples where
  "sample_protan = [(''0.0'', identity_matrix), (''0.5'', protan_half), (''1.0'', protan_full)]"

definition sample_table :: table where
  "sample_table = [(''protan'', sample_protan), (''tritan'', [])]"

definition sample_state :: state where
  "sample_state = \<lparr>MACHADO_TABLE = Some sample_table, requests = [''data/machado_matrices.json'']\<rparr>"

text \<open>
  Further sample data: the matrix whose entries are all NaN, a parsed table in which one mode
  has no sample and another only a key that is not a number, two network behaviours, and
  the state before any load.
\<close>

definition nan_matrix :: matrix where
  "nan_matrix = Matrix (Vec3 NaN NaN NaN) (Vec3 NaN NaN NaN) (Vec3 NaN NaN NaN)"

definition unvalidated_table :: table where
  "unvalidated_table = [(''protan'', []), (''deutan'', [(''abc'', identity_matrix)])]"

definition fetch_ok :: "table \<Rightarrow> string \<Rightarrow> fetch_outcome" where
  "fetch_ok T url = Resolved \<lparr>ok = True, status = 200, statusText = ''OK'', json = Some T\<rparr>"

definition fetch_not_found :: "string \<Rightarrow> fetch_outcome" where
  "fetch_not_found url = Resolved \<lparr>ok = False, status = 404, statusText = ''Not Found'', json = None\<rparr>"

definition unloaded :: state where
  "unloaded = \<lparr>MACHADO_TABLE = None, requests = []\<rparr>"





subsection \<open>The per-pixel algorithm over the reals\<close>

text \<open>
  Section 4.3 of the specification, step by step, over the reals: normalise a channel by
  255, decode with the inverse transfer function, multiply by the matrix, encode with the
  forward transfer function, clamp to [0, 1], scale by 255 and round to the nearest integer,
  and copy alpha. \<open>number_matrix\<close> reads a matrix of reals as a matrix of numbers. These
  functions give the value of the transform in exact arithmetic. The doubles of the program
  can round a scaled channel that lies on a tie \<open>k + 1/2\<close> to the other neighbour, so the
  functions serve the two results that do not depend on it: the range of the output and the
  round trip through the identity matrix.
\<close>

type_synonym real3 = "real \<times> real \<times> real"
type_synonym real_matrix = "real3 \<times> real3 \<times> real3"

definition spec_normalize :: "8 word \<Rightarrow> real" where
  "spec_normalize v = real (unat v) / 255"

definition spec_to_linear :: "real \<Rightarrow> real" where
  "spec_to_linear c = (if c \<le> 0.04045 then c / 12.92 else ((c + 0.055) / 1.055) powr 2.4)"

fun spec_apply_matrix :: "real_matrix \<Rightarrow> real3 \<Rightarrow> real3" where
  "spec_apply_matrix ((m00, m01, m02), (m10, m11, m12), (m20, m21, m22)) (x, y, z) =
     (m00 * x + m01 * y + m02 * z, m10 * x + m11 * y + m12 * z, m20 * x + m21 * y + m22 * z)"

definition spec_to_encoded :: "real \<Rightarrow> real" where
  "spec_to_encoded c = (if c \<le> 0.0031308 then 12.92 * c else 1.055 * c powr (1 / 2.4) - 0.055)"

definition spec_quantize :: "real \<Rightarrow> int" where
  "spec_quantize c = round (max 0 (min 1 c) * 255)"

fun spec_pixel :: "real_matrix \<Rightarrow> 8 word \<times> 8 word \<times> 8 word \<times> 8 word \<Rightarrow> int \<times> int \<times> int \<times> 8 word" where
  "spec_pixel M (r, g, b, a) =
     (case spec_apply_matrix M
             (spec_to_linear (spec_normalize r), spec_to_linear (spec_normalize g),
              spec_to_linear (spec_normalize b)) of
        (R, G, B) \<Rightarrow>
          (spec_quantize (spec_to_encoded R), spec_quantize (spec_to_encoded G),
           spec_quantize (spec_to_encoded B), a))"

fun number_matrix :: "real_matrix \<Rightarrow> matrix" where
  "number_matrix ((m00, m01, m02), (m10, m11, m12), (m20, m21, m22)) =
     Matrix (Vec3 (Num m00) (Num m01) (Num m02)) (Vec3 (Num m10) (Num m11) (Num m12))
       (Vec3 (Num m20) (Num m21) (Num m22))"

definition identity_reals :: real_matrix where
  "identity_reals = ((1, 0, 0), (0, 1, 0), (0, 0, 1))"


section \<open>Lemmas on the lookup\<close>

lemma insort_diff_Num: "insort_diff (Num x) (map Num ys) = map Num (insort x ys)"
  by (induction ys) (auto simp: num_gt_def num_sub_def)

lemma sort_diff_Num: "sort_diff (map Num xs) = map Num (sort xs)"
  by (induction xs) (auto simp: sort_diff_def insort_diff_Num sort_key_def)

lemma filter_parsed:
  "list_all (\<lambda>(k, m). key_ok env k \<and> P m) tbl \<Longrightarrow>
   filter (\<lambda>v. v \<noteq> NaN) (map (parseFloat env) (map fst tbl)) = map Num (sample_points env tbl)"
  by (induction tbl) (auto simp: sample_points_def key_ok_def split: number.splits)

lemma sampleKeys_ok:
  "samples_ok env tbl \<Longrightarrow> sampleKeys env tbl = map Num (sort (sample_points env tbl))"
  unfolding samples_ok_def sampleKeys_def
  using filter_parsed[of env finite_mat tbl] by (simp add: sort_diff_Num del: map_map)

lemma sample_points_iff:
  "x \<in> set (sample_points env tbl) \<longleftrightarrow> (\<exists>k m. (k, m) \<in> set tbl \<and> parseFloat env k = Num x)"
proof (induction tbl)
  case Nil
  then show ?case by (simp add: sample_points_def)
next
  case (Cons p tbl)
  obtain k m where p: "p = (k, m)" by (cases p)
  show ?case
    using Cons.IH by (cases "parseFloat env k") (auto simp: sample_points_def p)
qed

lemma stored_lookup:
  assumes "samples_ok env tbl" "(k, m) \<in> set tbl" "parseFloat env k = Num x"
  shows "map_of tbl (keyFromNum env (Num x)) = Some m" "0 \<le> x" "x \<le> 1" "finite_mat m"
proof -
  from assms have ok: "key_ok env k" "finite_mat m" and d: "distinct (map fst tbl)"
    by (auto simp: samples_ok_def list_all_iff)
  from ok(1) assms(3) have "keyFromNum env (Num x) = k" "0 \<le> x" "x \<le> 1"
    by (simp_all add: key_ok_def)
  with d assms(2) ok(2)
  show "map_of tbl (keyFromNum env (Num x)) = Some m" "0 \<le> x" "x \<le> 1" "finite_mat m"
    by simp_all
qed






lemma clamp01_Num: "clamp01 (Num v) = Num (if v < 0 then 0 else if 1 < v then 1 else v)"
  by (simp add: clamp01_def num_gt_def)



lemma resolve_clamp_cong:
  "clamp01 a = clamp01 b \<Longrightarrow>
   getMachadoMatrixSync env st mode a = getMachadoMatrixSync env st mode b"
  unfolding getMachadoMatrixSync_def by (simp split: option.split)




subsection \<open>lerpMatrix on finite matrices\<close>


lemma finite_vec_cases:
  "list_all is_finite (cells v) \<Longrightarrow> \<exists>x y z. v = Vec3 (Num x) (Num y) (Num z)"
  by (cases v) (auto elim: is_finite.elims)

lemma finite_mat_cases:
  assumes "finite_mat m"
  obtains a b c d e f g h i where
    "m = Matrix (Vec3 (Num a) (Num b) (Num c)) (Vec3 (Num d) (Num e) (Num f))
           (Vec3 (Num g) (Num h) (Num i))"
proof -
  obtain r0 r1 r2 where m: "m = Matrix r0 r1 r2" by (cases m)
  with assms have "list_all is_finite (cells r0)" "list_all is_finite (cells r1)"
    "list_all is_finite (cells r2)"
    by (simp_all add: finite_mat_def)
  then show ?thesis using that m by (metis finite_vec_cases)
qed





subsection \<open>The sample table satisfies the invariants\<close>

lemma sample_protan_ok: "samples_ok sample_env sample_protan"
  by (simp add: samples_ok_def sample_protan_def key_ok_def sample_env_def keyFromNum_def
      finite_mat_def identity_matrix_def protan_half_def protan_full_def)

lemma sample_protan_points: "sample_points sample_env sample_protan = [0, 1 / 2, 1]"
  by (simp add: sample_points_def sample_protan_def sample_env_def)

lemma sample_state_protan:
  "MACHADO_TABLE sample_state = Some sample_table" "map_of sample_table ''protan'' = Some sample_protan"
  by (simp_all add: sample_state_def sample_table_def)


section \<open>Resolving a matrix\<close>










section \<open>Unavailable results\<close>

lemma sort_diff_Nil: "sort_diff [] = []"
  by (simp add: sort_diff_def)

lemma sampleKeys_unparsed:
  "\<forall>k \<in> set (map fst tbl). parseFloat env k = NaN \<Longrightarrow> sampleKeys env tbl = []"
proof -
  assume "\<forall>k \<in> set (map fst tbl). parseFloat env k = NaN"
  then have "filter (\<lambda>v. v \<noteq> NaN) (map (parseFloat env) (map fst tbl)) = []"
    by (induction tbl) auto
  then show ?thesis
    unfolding sampleKeys_def by (simp only: sort_diff_Nil)
qed

text \<open>
  C8. When the table is not loaded, when the mode is not a key of the table, or when the
  mode's object has no key that parses as a number (in particular when it is empty), the
  lookup returns \<open>null\<close> without throwing, and \<open>applyCvdSimulation\<close> returns without drawing.
\<close>

theorem resolve_unavailable:
  assumes "MACHADO_TABLE st = None \<or>
           (\<exists>T. MACHADO_TABLE st = Some T \<and>
              (map_of T mode = None \<or>
               (\<exists>tbl. map_of T mode = Some tbl \<and> (\<forall>k \<in> set (map fst tbl). parseFloat env k = NaN))))"
  shows "getMachadoMatrixSync env st mode severity = Inr None \<and>
         applyCvdSimulation env st srcCanvas mode severity = Inr None"
proof -
  have "getMachadoMatrixSync env st mode severity = Inr None"
    using assms sampleKeys_unparsed[of _ env]
    by (auto simp: getMachadoMatrixSync_def Let_def)
  then show ?thesis
    by (simp add: applyCvdSimulation_def)
qed

theorem resolve_unavailable_witness:
  "getMachadoMatrixSync sample_env unloaded ''protan'' (Num 1) = Inr None \<and>
   getMachadoMatrixSync sample_env sample_state ''deutan'' (Num 1) = Inr None \<and>
   map_of sample_table ''tritan'' = Some [] \<and>
   getMachadoMatrixSync sample_env sample_state ''tritan'' (Num 1) = Inr None \<and>
   applyCvdSimulation sample_env sample_state \<lparr>width = 1, height = 1, imageData = [255, 255, 255, 255]\<rparr>
     ''tritan'' (Num 1) = Inr None"
  using
    resolve_unavailable[of unloaded "''protan''" sample_env "Num 1"]
    resolve_unavailable[of sample_state "''deutan''" sample_env "Num 1"]
    resolve_unavailable[of sample_state "''tritan''" sample_env "Num 1"
      "\<lparr>width = 1, height = 1, imageData = [255, 255, 255, 255]\<rparr>"]
  by (simp add: unloaded_def sample_state_def sample_table_def)


section \<open>Loading the table\<close>

lemma load_calls_cached:
  "MACHADO_TABLE st = Some T \<Longrightarrow> load_calls calls st = (replicate (length calls) (Inr T), st)"
  by (induction calls) (auto simp: loadMachadoMatrices_def)

text \<open>
  C9. With a table cached, a load call returns it and leaves the state, the request log
  included, unchanged. After a load call that succeeds the table is cached and every later
  load call, whatever its URL and whatever the network would answer, returns that table and
  leaves the state unchanged. After a load call that fails nothing is cached, and a later
  load call whose request succeeds returns the table it fetched.
\<close>

theorem load_lifecycle:
  "(MACHADO_TABLE st = Some T \<longrightarrow> loadMachadoMatrices fetch url st = (Inr T, st)) \<and>
   (loadMachadoMatrices fetch url st = (Inr T, st') \<longrightarrow>
      MACHADO_TABLE st' = Some T \<and>
      load_calls calls st' = (replicate (length calls) (Inr T), st')) \<and>
   (loadMachadoMatrices fetch url st = (Inl e, st') \<longrightarrow>
      MACHADO_TABLE st' = None \<and>
      (fetch2 url2 = Resolved res \<and> ok res \<and> json res = Some T2 \<longrightarrow>
         fst (loadMachadoMatrices fetch2 url2 st') = Inr T2))"
proof (intro conjI impI)
  show "loadMachadoMatrices fetch url st = (Inr T, st)" if "MACHADO_TABLE st = Some T"
    using that by (simp add: loadMachadoMatrices_def)
  show c: "MACHADO_TABLE st' = Some T" if "loadMachadoMatrices fetch url st = (Inr T, st')"
    using that
    by (auto simp: loadMachadoMatrices_def Let_def split: option.splits fetch_outcome.splits if_splits)
  show "load_calls calls st' = (replicate (length calls) (Inr T), st')"
    if "loadMachadoMatrices fetch url st = (Inr T, st')"
    using c[OF that] by (rule load_calls_cached)
  show n: "MACHADO_TABLE st' = None" if "loadMachadoMatrices fetch url st = (Inl e, st')"
    using that
    by (auto simp: loadMachadoMatrices_def Let_def split: option.splits fetch_outcome.splits if_splits)
  show "fst (loadMachadoMatrices fetch2 url2 st') = Inr T2"
    if "loadMachadoMatrices fetch url st = (Inl e, st')"
      and "fetch2 url2 = Resolved res \<and> ok res \<and> json res = Some T2"
    using n[OF that(1)] that(2) by (simp add: loadMachadoMatrices_def)
qed

theorem load_lifecycle_witness:
  "loadMachadoMatrices fetch_not_found ''data/machado_matrices.json'' unloaded =
     (Inl (LoadFailed ''data/machado_matrices.json'' 404 ''Not Found''),
      \<lparr>MACHADO_TABLE = None, requests = [''data/machado_matrices.json'']\<rparr>) \<and>
   fst (loadMachadoMatrices (fetch_ok sample_table) ''data/machado_matrices.json''
          \<lparr>MACHADO_TABLE = None, requests = [''data/machado_matrices.json'']\<rparr>) = Inr sample_table \<and>
   loadMachadoMatrices (fetch_ok sample_table) ''data/machado_matrices.json'' unloaded =
     (Inr sample_table, sample_state) \<and>
   loadMachadoMatrices fetch_not_found ''other.json'' sample_state = (Inr sample_table, sample_state) \<and>
   load_calls [(fetch_not_found, ''a.json''), (fetch_ok unvalidated_table, ''b.json'')] sample_state =
     ([Inr sample_table, Inr sample_table], sample_state)"
proof -
  let ?url = "''data/machado_matrices.json''"
  let ?failed = "\<lparr>MACHADO_TABLE = None, requests = [?url]\<rparr>"
  let ?res = "\<lparr>ok = True, status = 200, statusText = ''OK'', json = Some sample_table\<rparr>"
  have bad: "loadMachadoMatrices fetch_not_found ?url unloaded =
      (Inl (LoadFailed ?url 404 ''Not Found''), ?failed)"
    by (simp add: loadMachadoMatrices_def fetch_not_found_def unloaded_def)
  have good: "loadMachadoMatrices (fetch_ok sample_table) ?url unloaded = (Inr sample_table, sample_state)"
    by (simp add: loadMachadoMatrices_def fetch_ok_def unloaded_def sample_state_def)
  have res: "fetch_ok sample_table ?url = Resolved ?res \<and> ok ?res \<and> json ?res = Some sample_table"
    by (simp add: fetch_ok_def)
  have retry: "fst (loadMachadoMatrices (fetch_ok sample_table) ?url ?failed) = Inr sample_table"
    using load_lifecycle[where st = unloaded and fetch = fetch_not_found and url = ?url
        and e = "LoadFailed ?url 404 ''Not Found''" and st' = ?failed
        and ?fetch2.0 = "fetch_ok sample_table" and ?url2.0 = ?url and res = ?res
        and ?T2.0 = sample_table] bad res
    by blast
  have cached: "loadMachadoMatrices fetch_not_found ''other.json'' sample_state =
      (Inr sample_table, sample_state)"
    using load_lifecycle[where st = sample_state and T = sample_table and fetch = fetch_not_found
        and url = "''other.json''"] sample_state_protan(1)
    by blast
  have "load_calls [(fetch_not_found, ''a.json''), (fetch_ok unvalidated_table, ''b.json'')] sample_state =
      (replicate (length [(fetch_not_found, ''a.json''), (fetch_ok unvalidated_table, ''b.json'')])
         (Inr sample_table), sample_state)"
    using load_lifecycle[where st = unloaded and T = sample_table and fetch = "fetch_ok sample_table"
        and url = ?url and st' = sample_state
        and calls = "[(fetch_not_found, ''a.json''), (fetch_ok unvalidated_table, ''b.json'')]"] good
    by blast
  then have later: "load_calls [(fetch_not_found, ''a.json''), (fetch_ok unvalidated_table, ''b.json'')]
      sample_state = ([Inr sample_table, Inr sample_table], sample_state)"
    by (simp add: numeral_2_eq_2)
  from bad retry good cached later show ?thesis by blast
qed

text \<open>
  C3, as stated, fails: a response whose JSON has a mode without any sample and a mode whose
  only key is not a number is loaded and cached as it is.
\<close>

theorem load_validates_counterexample:
  "map_of unvalidated_table ''protan'' = Some [] \<and>
   map_of unvalidated_table ''deutan'' = Some [(''abc'', identity_matrix)] \<and>
   parseFloat sample_env ''abc'' = NaN \<and>
   loadMachadoMatrices (fetch_ok unvalidated_table) ''data/machado_matrices.json'' unloaded =
     (Inr unvalidated_table,
      \<lparr>MACHADO_TABLE = Some unvalidated_table, requests = [''data/machado_matrices.json'']\<rparr>)"
  by (simp add: loadMachadoMatrices_def fetch_ok_def unloaded_def unvalidated_table_def sample_env_def)

text \<open>
  C3, amended. The load does not validate the parsed table. From the unloaded state it
  returns and caches whatever table an ok response parses to; it fails exactly when the
  request is rejected, the response is not ok, or the body is not valid JSON, and a failed
  load stores no table.
\<close>

theorem load_without_validation:
  assumes "MACHADO_TABLE st = None"
  shows "(fetch url = Resolved res \<and> ok res \<and> json res = Some T \<longrightarrow>
            loadMachadoMatrices fetch url st =
              (Inr T, st\<lparr>requests := requests st @ [url], MACHADO_TABLE := Some T\<rparr>)) \<and>
         ((\<exists>e. fst (loadMachadoMatrices fetch url st) = Inl e) \<longleftrightarrow>
            (fetch url = Rejected \<or>
             (\<exists>r. fetch url = Resolved r \<and> (\<not> ok r \<or> json r = None)))) \<and>
         ((\<exists>e. fst (loadMachadoMatrices fetch url st) = Inl e) \<longrightarrow>
            MACHADO_TABLE (snd (loadMachadoMatrices fetch url st)) = None)"
  using assms
  by (auto simp: loadMachadoMatrices_def Let_def split: fetch_outcome.splits option.splits)

theorem load_without_validation_witness:
  "MACHADO_TABLE unloaded = None \<and>
   loadMachadoMatrices (fetch_ok unvalidated_table) ''t.json'' unloaded =
     (Inr unvalidated_table, \<lparr>MACHADO_TABLE = Some unvalidated_table, requests = [''t.json'']\<rparr>) \<and>
   fst (loadMachadoMatrices fetch_not_found ''t.json'' unloaded) = Inl (LoadFailed ''t.json'' 404 ''Not Found'') \<and>
   MACHADO_TABLE (snd (loadMachadoMatrices fetch_not_found ''t.json'' unloaded)) = None"
proof -
  have u: "MACHADO_TABLE unloaded = None" by (simp add: unloaded_def)
  have f: "fst (loadMachadoMatrices fetch_not_found ''t.json'' unloaded) = Inl (LoadFailed ''t.json'' 404 ''Not Found'')"
    by (simp add: loadMachadoMatrices_def fetch_not_found_def unloaded_def)
  show ?thesis
    using u f
      load_without_validation[OF u, of "fetch_ok unvalidated_table" "''t.json''"
        "\<lparr>ok = True, status = 200, statusText = ''OK'', json = Some unvalidated_table\<rparr>" unvalidated_table]
      load_without_validation[OF u, of fetch_not_found "''t.json''"]
    by (simp add: fetch_ok_def unloaded_def)
qed


section \<open>Severities outside the unit interval and NaN\<close>

lemma find_interval_NaN: "find_interval NaN ks = None"
  by (induction ks rule: induct_list012) (auto simp: num_ge_def num_le_def)

lemma lerpMatrix_NaN: "lerpMatrix a b NaN = nan_matrix"
proof -
  have c: "lerp_cell x y NaN = NaN" for x y
    by (cases x) (simp_all add: lerp_cell_def num_sub_def)
  have r: "lerp_row u w NaN = Vec3 NaN NaN NaN" for u w
    by (cases u, cases w) (simp add: c)
  show ?thesis
    by (cases a, cases b) (simp add: r nan_matrix_def)
qed

lemma num_div_NaN: "num_div NaN y = NaN"
  by simp

text \<open>
  C4, as stated, fails: on the sample table a NaN severity resolves to the matrix of NaN
  entries, while severity 0 resolves to the matrix stored at 0.0.
\<close>

theorem nan_severity_counterexample:
  "getMachadoMatrixSync sample_env sample_state ''protan'' NaN = Inr (Some nan_matrix) \<and>
   getMachadoMatrixSync sample_env sample_state ''protan'' (Num 0) = Inr (Some identity_matrix) \<and>
   nan_matrix \<noteq> identity_matrix"
proof -
  have ks: "sampleKeys sample_env sample_protan = [Num 0, Num (1 / 2), Num 1]"
    by (simp add: sampleKeys_ok[OF sample_protan_ok] sample_protan_points)
  have k: "keyFromNum sample_env (Num 0) = ''0.0''" "keyFromNum sample_env (Num (1 / 2)) = ''0.5''"
    by (simp_all add: keyFromNum_def sample_env_def)
  have n: "clamp01 NaN = NaN" by (simp add: clamp01_def num_gt_def)
  have t: "num_div (num_sub NaN (Num 0)) (num_sub (Num (1 / 2)) (Num 0)) = NaN"
    by (simp add: num_sub_def)
  have "getMachadoMatrixSync sample_env sample_state ''protan'' NaN = Inr (Some nan_matrix)"
    by (simp add: getMachadoMatrixSync_def sample_state_protan ks n k t num_le_def num_ge_def
        initial_interval_def Let_def lerpMatrix_NaN)
       (simp add: sample_protan_def k t lerpMatrix_NaN)
  moreover have "getMachadoMatrixSync sample_env sample_state ''protan'' (Num 0) = Inr (Some identity_matrix)"
    by (simp add: getMachadoMatrixSync_def sample_state_protan ks clamp01_Num k num_le_def
        Let_def)
       (simp add: sample_protan_def k)
  moreover have "nan_matrix \<noteq> identity_matrix"
    by (simp add: nan_matrix_def identity_matrix_def)
  ultimately show ?thesis by blast
qed


text \<open>
  C4, amended. A severity below 0 resolves as severity 0 and a severity above 1 as severity
  1. NaN is not clamped: \<open>clamp01\<close> returns it unchanged, and for a mode that satisfies the
  invariants and has at least two sample points the lookup returns the matrix whose entries
  are all NaN.
\<close>

theorem severity_clamping:
  "(num_lt severity (Num 0) \<longrightarrow>
      getMachadoMatrixSync env st mode severity = getMachadoMatrixSync env st mode (Num 0)) \<and>
   (num_gt severity (Num 1) \<longrightarrow>
      getMachadoMatrixSync env st mode severity = getMachadoMatrixSync env st mode (Num 1)) \<and>
   clamp01 NaN = NaN \<and>
   (MACHADO_TABLE st = Some T \<and> map_of T mode = Some tbl \<and> samples_ok env tbl \<and>
    2 \<le> length (sample_points env tbl) \<longrightarrow>
      getMachadoMatrixSync env st mode NaN = Inr (Some nan_matrix))"
proof (intro conjI impI)
  show "getMachadoMatrixSync env st mode severity = getMachadoMatrixSync env st mode (Num 0)"
    if "num_lt severity (Num 0)"
    using that by (intro resolve_clamp_cong) (simp add: clamp01_def num_gt_def)
  show "getMachadoMatrixSync env st mode severity = getMachadoMatrixSync env st mode (Num 1)"
    if "num_gt severity (Num 1)"
    using that by (intro resolve_clamp_cong) (cases severity; simp add: clamp01_def num_gt_def)
  show n: "clamp01 NaN = NaN"
    by (simp add: clamp01_def num_gt_def)
  show "getMachadoMatrixSync env st mode NaN = Inr (Some nan_matrix)"
    if h: "MACHADO_TABLE st = Some T \<and> map_of T mode = Some tbl \<and> samples_ok env tbl \<and>
       2 \<le> length (sample_points env tbl)"
  proof -
    let ?L = "sort (sample_points env tbl)"
    have "2 \<le> length ?L" using h by simp
    then obtain a b rest where L: "?L = a # b # rest"
      by (cases ?L; cases "tl ?L") auto
    then have "a \<in> set ?L" "b \<in> set ?L" by simp_all
    then have "a \<in> set (sample_points env tbl)" "b \<in> set (sample_points env tbl)"
      unfolding set_sort .
    then obtain ka ma kb mb where
      s: "(ka, ma) \<in> set tbl" "parseFloat env ka = Num a" "(kb, mb) \<in> set tbl" "parseFloat env kb = Num b"
      by (auto simp: sample_points_iff)
    have lk: "map_of tbl (keyFromNum env (Num a)) = Some ma" "map_of tbl (keyFromNum env (Num b)) = Some mb"
      using stored_lookup(1)[of env tbl] h s by auto
    have ks: "sampleKeys env tbl = Num a # Num b # map Num rest"
      using h L by (simp add: sampleKeys_ok)
    show ?thesis
      using h lk
      by (simp add: getMachadoMatrixSync_def n ks Let_def num_le_def num_ge_def find_interval_NaN
          initial_interval_def num_sub_def lerpMatrix_NaN)
  qed
qed

theorem severity_clamping_witness:
  "num_lt (Num (- 1)) (Num 0) \<and>
   getMachadoMatrixSync sample_env sample_state ''protan'' (Num (- 1)) =
     getMachadoMatrixSync sample_env sample_state ''protan'' (Num 0) \<and>
   num_gt PosInf (Num 1) \<and>
   getMachadoMatrixSync sample_env sample_state ''protan'' PosInf =
     getMachadoMatrixSync sample_env sample_state ''protan'' (Num 1) \<and>
   samples_ok sample_env sample_protan \<and> length (sample_points sample_env sample_protan) = 3 \<and>
   getMachadoMatrixSync sample_env sample_state ''protan'' NaN = Inr (Some nan_matrix)"
  using
    severity_clamping[where severity = "Num (- 1)" and env = sample_env and st = sample_state
      and mode = "''protan''" and T = sample_table and tbl = sample_protan]
    severity_clamping[where severity = PosInf and env = sample_env and st = sample_state
      and mode = "''protan''" and T = sample_table and tbl = sample_protan]
  by (simp add: sample_state_protan sample_protan_ok sample_protan_points num_gt_def)



section \<open>The per-pixel transform\<close>

subsection \<open>The source's arithmetic on bytes and finite matrices\<close>

lemma srgbToLinear_nat:
  "srgbToLinear (num_div (Num (real n)) (Num 255)) = Num (spec_to_linear (real n / 255))"
proof -
  have "0 \<le> real n / 255" by simp
  then have "0 < (real n / 255 + 0.055) / 1.055" by simp
  then show ?thesis
    by (simp add: srgbToLinear_def spec_to_linear_def num_le_def)
qed

lemma srgbToLinear_byte:
  "srgbToLinear (num_div (byte_num v) (Num 255)) = Num (spec_to_linear (spec_normalize v))"
  unfolding byte_num_def spec_normalize_def by (rule srgbToLinear_nat)

lemma linearToSrgb_Num: "linearToSrgb (Num c) = Num (spec_to_encoded c)"
  by (simp add: linearToSrgb_def spec_to_encoded_def num_le_def num_sub_def)

lemma round_clamped: "Math_round (num_mul (clamp01 (Num x)) (Num 255)) = Num (of_int (spec_quantize x))"
  by (auto simp: clamp01_Num spec_quantize_def round_def max_def min_def)

lemma spec_quantize_range: "0 \<le> spec_quantize x \<and> spec_quantize x \<le> 255"
proof -
  have "0 \<le> max 0 (min 1 x) * 255" "max 0 (min 1 x) * 255 \<le> 255"
    by (auto simp: max_def min_def)
  then have "round (0::real) \<le> round (max 0 (min 1 x) * 255)"
    "round (max 0 (min 1 x) * 255) \<le> round (255::real)"
    by (intro round_mono; simp)+
  then show ?thesis by (simp add: spec_quantize_def)
qed

lemma transform_real:
  "transformRgbWithMatrix_srgbLinear (byte_num r) (byte_num g) (byte_num b) (number_matrix M) =
     (case spec_pixel M (r, g, b, a) of
        (qr, qg, qb, a') \<Rightarrow> (Num (of_int qr), Num (of_int qg), Num (of_int qb)))"
proof -
  obtain m00 m01 m02 m10 m11 m12 m20 m21 m22 where
    M: "M = ((m00, m01, m02), (m10, m11, m12), (m20, m21, m22))"
    by (metis prod_cases3)
  show ?thesis
    by (simp add: M srgbToLinear_byte linearToSrgb_Num round_clamped Let_def)
qed

lemma round_half_even_int: "round_half_even (of_int q) = q"
  by (simp add: round_half_even_def)

lemma toUint8Clamp_int:
  "0 \<le> q \<Longrightarrow> q \<le> 255 \<Longrightarrow> toUint8Clamp (Num (of_int q)) = word_of_int q"
  by (auto simp: round_half_even_int)


lemma pixel_step:
  assumes q: "spec_pixel M (r, g, b, a) = (qr, qg, qb, a')"
  shows "transformRgbWithMatrix_srgbLinear (byte_num r) (byte_num g) (byte_num b) (number_matrix M) =
           (Num (of_int qr), Num (of_int qg), Num (of_int qb))"
    and "pixel_loop (number_matrix M) (r # g # b # a # rest) =
           word_of_int qr # word_of_int qg # word_of_int qb # a' # pixel_loop (number_matrix M) rest"
proof -
  have a: "a' = a"
    using q by (auto split: prod.splits)
  have range: "0 \<le> qr \<and> qr \<le> 255" "0 \<le> qg \<and> qg \<le> 255" "0 \<le> qb \<and> qb \<le> 255"
    using q spec_quantize_range by (auto split: prod.splits)
  show t: "transformRgbWithMatrix_srgbLinear (byte_num r) (byte_num g) (byte_num b) (number_matrix M) =
      (Num (of_int qr), Num (of_int qg), Num (of_int qb))"
    using transform_real[of r g b M a] q by simp
  show "pixel_loop (number_matrix M) (r # g # b # a # rest) =
      word_of_int qr # word_of_int qg # word_of_int qb # a' # pixel_loop (number_matrix M) rest"
    using range a by (simp add: t toUint8Clamp_int del: toUint8Clamp.simps)
qed

lemma identity_matrix_reals: "identity_matrix = number_matrix identity_reals"
  by (simp add: identity_matrix_def identity_reals_def)

text \<open>
  C10. For every matrix with finite entries and every 8-bit input, each of the three channels
  the transform returns is an integer between 0 and 255.
\<close>

theorem transform_channels_in_range:
  assumes "finite_mat mat"
  shows "\<exists>x y z :: int.
           transformRgbWithMatrix_srgbLinear (byte_num r) (byte_num g) (byte_num b) mat =
             (Num (of_int x), Num (of_int y), Num (of_int z)) \<and>
           0 \<le> x \<and> x \<le> 255 \<and> 0 \<le> y \<and> y \<le> 255 \<and> 0 \<le> z \<and> z \<le> 255"
proof -
  from assms obtain m00 m01 m02 m10 m11 m12 m20 m21 m22 where
    "mat = number_matrix ((m00, m01, m02), (m10, m11, m12), (m20, m21, m22))"
    by (auto elim: finite_mat_cases)
  then obtain M where M: "mat = number_matrix M" by blast
  obtain qr qg qb a' where q: "spec_pixel M (r, g, b, 0) = (qr, qg, qb, a')"
    by (metis prod_cases4)
  have range: "0 \<le> qr \<and> qr \<le> 255" "0 \<le> qg \<and> qg \<le> 255" "0 \<le> qb \<and> qb \<le> 255"
    using q spec_quantize_range by (auto split: prod.splits)
  have "transformRgbWithMatrix_srgbLinear (byte_num r) (byte_num g) (byte_num b) mat =
      (Num (of_int qr), Num (of_int qg), Num (of_int qb))"
    using transform_real[of r g b M 0] q M by simp
  with range show ?thesis by blast
qed

theorem transform_channels_in_range_witness:
  "finite_mat protan_full \<and>
   (\<exists>x y z :: int.
      transformRgbWithMatrix_srgbLinear (byte_num 200) (byte_num 30) (byte_num 7) protan_full =
        (Num (of_int x), Num (of_int y), Num (of_int z)) \<and>
      0 \<le> x \<and> x \<le> 255 \<and> 0 \<le> y \<and> y \<le> 255 \<and> 0 \<le> z \<and> z \<le> 255)"
proof -
  have f: "finite_mat protan_full"
    by (simp add: finite_mat_def protan_full_def)
  from transform_channels_in_range[OF f, of 200 30 7] f show ?thesis by blast
qed


subsection \<open>The identity matrix\<close>

text \<open>
  The two transfer functions are inverse to each other on every value \<open>n / 255\<close>: up to
  \<open>n = 10\<close> both take their linear branch, and from \<open>n = 11\<close> on the decoded value lies above
  0.0031308, so that both take their power branch.
\<close>

lemma threshold_base:
  fixes b :: real
  assumes b: "b = 1001 / 10761"
  shows "0.0031308 < b powr (12 / 5)"
proof (rule ccontr)
  assume "\<not> 0.0031308 < b powr (12 / 5)"
  then have le: "b powr (12 / 5) \<le> 7827 / 2500000" by simp
  have pos: "0 < b" using b by simp
  have "0 \<le> b powr (12 / 5)" by simp
  with le have "(b powr (12 / 5)) ^ 5 \<le> (7827 / 2500000) ^ 5"
    by (rule power_mono)
  moreover have "(b powr (12 / 5)) ^ 5 = b powr (of_nat 5 * (12 / 5))"
    using pos by (intro powr_power) simp
  moreover have "of_nat 5 * (12 / 5) = (12 :: real)" by simp
  moreover have "b powr 12 = b ^ 12"
    using pos by (intro powr_numeral) simp
  ultimately have "b ^ 12 \<le> (7827 / 2500000) ^ 5"
    by (simp only:)
  then show False
    unfolding b by (simp add: power_divide)
qed

lemma round_trip_low:
  assumes "n \<le> 10"
  shows "spec_to_encoded (spec_to_linear (real n / 255)) = real n / 255"
proof -
  have "real n \<le> 10" using assms by simp
  then have c: "real n / 255 \<le> 0.04045" "real n / 255 / 12.92 \<le> 0.0031308"
    by simp_all
  then show ?thesis
    by (simp add: spec_to_linear_def spec_to_encoded_def)
qed

lemma round_trip_high:
  assumes "11 \<le> n"
  shows "spec_to_encoded (spec_to_linear (real n / 255)) = real n / 255"
proof -
  define c where "c = real n / 255"
  define b where "b = (c + 0.055) / 1.055"
  define b0 :: real where "b0 = 1001 / 10761"
  have n: "11 \<le> real n" using assms by simp
  then have c: "\<not> c \<le> 0.04045" by (simp add: c_def)
  have b: "b0 \<le> b" using n by (simp add: b_def c_def b0_def)
  have b0: "0 \<le> b0" by (simp add: b0_def)
  have "b0 powr (12 / 5) \<le> b powr (12 / 5)"
    using b0 b by (intro powr_mono2) simp_all
  with threshold_base[OF b0_def] have "0.0031308 < b powr (12 / 5)" by simp
  then have lin: "\<not> b powr 2.4 \<le> 0.0031308" by simp
  have pos: "0 \<le> b" using b0 b by simp
  have "(b powr 2.4) powr (1 / 2.4) = b powr (2.4 * (1 / 2.4))"
    by (rule powr_powr)
  also have "2.4 * (1 / 2.4) = (1 :: real)" by simp
  finally have inv: "(b powr 2.4) powr (1 / 2.4) = b"
    using pos by (simp only: powr_one)
  have "spec_to_linear c = b powr 2.4"
    using c by (simp only: spec_to_linear_def if_False b_def)
  moreover have "spec_to_encoded (b powr 2.4) = 1.055 * (b powr 2.4) powr (1 / 2.4) - 0.055"
    using lin by (simp only: spec_to_encoded_def if_False)
  ultimately have "spec_to_encoded (spec_to_linear c) = 1.055 * b - 0.055"
    by (simp only: inv)
  also have "1.055 * b - 0.055 = c"
    by (simp add: b_def field_simps)
  finally show ?thesis by (simp only: c_def)
qed

lemma round_trip: "spec_to_encoded (spec_to_linear (real n / 255)) = real n / 255"
  using round_trip_low[of n] round_trip_high[of n] by (cases "n \<le> 10") simp_all

lemma quantize_byte: "n \<le> 255 \<Longrightarrow> spec_quantize (real n / 255) = int n"
  by (simp add: spec_quantize_def max_def min_def)

lemma spec_pixel_identity:
  "spec_pixel identity_reals (r, g, b, a) = (int (unat r), int (unat g), int (unat b), a)"
proof -
  have le: "unat w \<le> 255" for w :: "8 word"
    using unsigned_less[of w, where 'a = nat] by simp
  show ?thesis
    unfolding identity_reals_def spec_pixel.simps spec_apply_matrix.simps spec_normalize_def
    by (simp add: round_trip quantize_byte le del: of_nat_unat)
qed


text \<open>
  C5. With the identity matrix the transform returns the three input channels themselves,
  and the loop writes the source pixel, alpha included, unchanged: the round trip is exact
  in real arithmetic, hence within one unit per channel.
\<close>

theorem identity_round_trip:
  "transformRgbWithMatrix_srgbLinear (byte_num r) (byte_num g) (byte_num b) identity_matrix =
     (byte_num r, byte_num g, byte_num b) \<and>
   pixel_loop identity_matrix (r # g # b # a # rest) = r # g # b # a # pixel_loop identity_matrix rest"
  unfolding identity_matrix_reals
  using pixel_step(1)[OF spec_pixel_identity, of r g b]
    pixel_step(2)[OF spec_pixel_identity, of r g b a rest]
  by (simp add: byte_num_def del: pixel_loop.simps transformRgbWithMatrix_srgbLinear.simps)

theorem identity_round_trip_witness:
  "pixel_loop identity_matrix [12, 200, 255, 77] = [12, 200, 255, 77]"
proof -
  have e: "pixel_loop identity_matrix [] = []" by simp
  from identity_round_trip[where r = 12 and g = 200 and b = 255 and a = 77 and rest = "[]"]
  show ?thesis
    unfolding e by (rule conjunct2)
qed

end
